theory Spec2Isabelle
  imports Complex_Main
begin

section \<open>The RSS monitor of app.py\<close>

text \<open>
  The development follows \<^verbatim>\<open>src/app.py\<close>: the feed list read from a spreadsheet
  (\<^verbatim>\<open>GoogleSheetReader.get_rss_feeds\<close>), the per-feed check (\<^verbatim>\<open>RSSMonitor._check_rss\<close>
  and \<^verbatim>\<open>_parse_telegram_channel\<close>), the batch flush (\<^verbatim>\<open>_process_pending_entries\<close>),
  the single-entry classifier (\<^verbatim>\<open>categorize_with_chatgpt\<close>), the module-level notifier
  (\<^verbatim>\<open>send_telegram_message\<close>) and one pass of \<^verbatim>\<open>_monitor_loop\<close>.
  Everything the program reads from outside (the spreadsheet, the HTTP reply, the parsed
  feed, the classifier's reply, the chat-id file, the clock) is an argument of the
  function that reads it. Exceptions are values of \<open>exn\<close>; a \<^verbatim>\<open>try\<close> body is a
  function into a sum with the exception on the left, together with the state at the
  raise where the body writes before it can raise, and its handlers are the function
  that wraps it.
\<close>

subsection \<open>Exceptions\<close>

datatype exn =
  ConnectionError | HTTPError | IndexError | KeyError | TypeError | AttributeError
  | ValueError | JSONDecodeError | OpenAIError | APIError | SheetError

text \<open>\<^verbatim>\<open>requests.exceptions.RequestException\<close> and its subclasses, the first handler of
  \<^verbatim>\<open>_check_rss\<close> (line 195); every other exception falls to \<^verbatim>\<open>except Exception\<close>.\<close>

fun is_request_exception :: "exn \<Rightarrow> bool" where
  "is_request_exception ConnectionError = True"
| "is_request_exception HTTPError = True"
| "is_request_exception _ = False"

subsection \<open>Strings\<close>

text \<open>\<^verbatim>\<open>needle in haystack\<close> on strings: some suffix of the haystack starts with the needle.\<close>

definition startswith :: "string \<Rightarrow> string \<Rightarrow> bool" where
  "startswith hay needle = (take (length needle) hay = needle)"

fun contains :: "string \<Rightarrow> string \<Rightarrow> bool" where
  "contains needle [] = (needle = [])"
| "contains needle (c # cs) = (startswith (c # cs) needle \<or> contains needle cs)"

text \<open>\<^verbatim>\<open>str.lower\<close> on the ASCII letters (Python also folds the letters beyond ASCII).\<close>

definition lower_char :: "char \<Rightarrow> char" where
  "lower_char c =
     (let n = (of_char c :: nat) in if 65 \<le> n \<and> n \<le> 90 then char_of (n + 32) else c)"

definition lower :: "string \<Rightarrow> string" where
  "lower s = map lower_char s"

subsection \<open>The feed list (GoogleSheetReader.get_rss_feeds, lines 65-76)\<close>

text \<open>The reply of the spreadsheet request: it raises, or gives the rows of column B.\<close>

datatype sheet_reply = SheetFailed | SheetValues "string list list"

text \<open>The \<^verbatim>\<open>try\<close> body: \<^verbatim>\<open>[row[0] for row in values if row and 'http' in row[0].lower()]\<close>.\<close>

definition keep_row :: "string list \<Rightarrow> string list" where
  "keep_row row =
     (case row of [] \<Rightarrow> [] | c # _ \<Rightarrow> if contains ''http'' (lower c) then [c] else [])"

definition get_rss_feeds_try :: "sheet_reply \<Rightarrow> exn + string list" where
  "get_rss_feeds_try reply =
     (case reply of
        SheetFailed \<Rightarrow> Inl SheetError
      | SheetValues vals \<Rightarrow> Inr (concat (map keep_row vals)))"

text \<open>The handler of line 74: \<^verbatim>\<open>except Exception\<close> logs and returns \<^verbatim>\<open>[]\<close>.\<close>

definition get_rss_feeds :: "sheet_reply \<Rightarrow> string list" where
  "get_rss_feeds reply = (case get_rss_feeds_try reply of Inl e \<Rightarrow> [] | Inr fs \<Rightarrow> fs)"

subsection \<open>The monitor's state (RSSMonitor.__init__, lines 87-100)\<close>

text \<open>An entry waiting for classification: the dict appended at lines 188-193 and
  301-307 (\<open>is_telegram\<close>: the key is present).\<close>

record candidate =
  title :: string
  content :: string
  link :: string
  feed_url :: string
  is_telegram :: bool

record monitor =
  check_interval :: real
  sheet_refresh_interval :: real
  last_entries :: "string \<rightharpoonup> string"
  is_running :: bool
  feeds :: "string list"
  last_sheet_check :: real
  pending_entries :: "candidate list"
  max_batch_size :: int
  batch_timeout :: real
  last_batch_time :: real

definition RSS_CHECK_INTERVAL :: real where "RSS_CHECK_INTERVAL = 600"
definition SHEET_REFRESH_INTERVAL :: real where "SHEET_REFRESH_INTERVAL = 600"

text \<open>\<open>now\<close> is the reading of \<^verbatim>\<open>time.time()\<close> at line 99.\<close>

definition init_monitor :: "real \<Rightarrow> real \<Rightarrow> monitor" where
  "init_monitor interval now =
     \<lparr>check_interval = interval, sheet_refresh_interval = SHEET_REFRESH_INTERVAL,
      last_entries = Map.empty, is_running = False, feeds = [], last_sheet_check = 0,
      pending_entries = [], max_batch_size = 5, batch_timeout = 60,
      last_batch_time = now\<rparr>"

subsection \<open>Refreshing the feed list (_monitor_loop, lines 120-123)\<close>

definition refresh :: "real \<Rightarrow> sheet_reply \<Rightarrow> monitor \<Rightarrow> monitor" where
  "refresh current_time reply s =
     (if current_time - last_sheet_check s \<ge> sheet_refresh_interval s
      then s\<lparr>feeds := get_rss_feeds reply, last_sheet_check := current_time\<rparr>
      else s)"

subsection \<open>The per-feed check (_check_rss, lines 138-198)\<close>

text \<open>The reply of \<^verbatim>\<open>requests.get\<close>: a connection-level failure, or a response with its
  status code and body.\<close>

datatype http_reply = NetworkError | Response int string

text \<open>\<^verbatim>\<open>Response.raise_for_status\<close> of the requests library raises \<^verbatim>\<open>HTTPError\<close> for the
  client-error and server-error statuses, 400 to 599, and for no other status.\<close>

definition raise_for_status :: "int \<Rightarrow> exn + unit" where
  "raise_for_status st = (if 400 \<le> st \<and> st < 600 then Inl HTTPError else Inr ())"

text \<open>An entry of the parsed feed is a dict from keys to strings, here the list of its
  items. The parser leaves out the keys the feed does not give: any of \<^verbatim>\<open>id\<close>,
  \<^verbatim>\<open>link\<close>, \<^verbatim>\<open>title\<close>, \<^verbatim>\<open>summary\<close>, \<^verbatim>\<open>description\<close> may be missing.\<close>

type_synonym fp_entry = "(string \<times> string) list"

text \<open>\<^verbatim>\<open>key in entry\<close>.\<close>

definition has_key :: "fp_entry \<Rightarrow> string \<Rightarrow> bool" where
  "has_key e k = (map_of e k \<noteq> None)"

text \<open>\<^verbatim>\<open>entry.key\<close>: reading a missing key as an attribute raises \<^verbatim>\<open>AttributeError\<close>.\<close>

definition attr :: "fp_entry \<Rightarrow> string \<Rightarrow> exn + string" where
  "attr e k = (case map_of e k of None \<Rightarrow> Inl AttributeError | Some v \<Rightarrow> Inr v)"

text \<open>\<^verbatim>\<open>entry.get(key, '')\<close>.\<close>

definition get_or_empty :: "fp_entry \<Rightarrow> string \<Rightarrow> string" where
  "get_or_empty e k = (case map_of e k of None \<Rightarrow> [] | Some v \<Rightarrow> v)"

record parsed_feed =
  bozo :: bool
  entries :: "fp_entry list"

text \<open>A message block of a Telegram channel page, as \<^verbatim>\<open>BeautifulSoup\<close> finds it: the
  date anchor (absent, or present with or without an \<^verbatim>\<open>href\<close>) and the text block.\<close>

record tg_message =
  message_link :: "string option option"
  message_text :: "string option"

text \<open>What one check of one feed sees of the outside.\<close>

record world =
  http :: http_reply
  parsed :: parsed_feed
  soup :: "tg_message list"

text \<open>\<^verbatim>\<open>xs[0]\<close> raises \<^verbatim>\<open>IndexError\<close> on the empty list.\<close>

definition py_first :: "'a list \<Rightarrow> exn + 'a" where
  "py_first xs = (case xs of [] \<Rightarrow> Inl IndexError | x # _ \<Rightarrow> Inr x)"

text \<open>Line 179: \<^verbatim>\<open>feed.entries[0] if feed.entries else None\<close>.\<close>

definition latest_of :: "fp_entry list \<Rightarrow> exn + fp_entry option" where
  "latest_of es =
     (if es \<noteq> [] then (case py_first es of Inl e \<Rightarrow> Inl e | Inr x \<Rightarrow> Inr (Some x))
      else Inr None)"

text \<open>Line 181: \<^verbatim>\<open>latest_entry.id if 'id' in latest_entry else latest_entry.link\<close>.\<close>

definition identity_of :: "fp_entry \<Rightarrow> exn + string" where
  "identity_of e = (if has_key e ''id'' then attr e ''id'' else attr e ''link'')"

text \<open>Line 185: \<^verbatim>\<open>get('summary', '') or get('description', '')\<close>.\<close>

definition content_of :: "fp_entry \<Rightarrow> string" where
  "content_of e =
     (let s = get_or_empty e ''summary''
      in if s \<noteq> [] then s else get_or_empty e ''description'')"

text \<open>Lines 183 and 296: \<^verbatim>\<open>feed_url not in self.last_entries or
  self.last_entries[feed_url] != entry_id\<close>.\<close>

definition is_new :: "monitor \<Rightarrow> string \<Rightarrow> string \<Rightarrow> bool" where
  "is_new s url ident =
     (case last_entries s url of None \<Rightarrow> True | Some old \<Rightarrow> old \<noteq> ident)"

text \<open>Lines 181-193, in the order the source runs them. A raise is returned with the
  state at that moment: the identity is read first (a raise there leaves the state as
  it was); for a new identity the index is written (line 184), and only then the dict of
  lines 188-193 is built, reading \<^verbatim>\<open>latest_entry.title\<close> and then \<^verbatim>\<open>latest_entry.link\<close>;
  a raise there comes after the write, with nothing appended.\<close>

definition note_latest_try :: "fp_entry \<Rightarrow> string \<Rightarrow> monitor \<Rightarrow> (exn \<times> monitor) + monitor" where
  "note_latest_try e url s =
     (case identity_of e of
        Inl x \<Rightarrow> Inl (x, s)
      | Inr ident \<Rightarrow>
          if is_new s url ident
          then (let s1 = s\<lparr>last_entries := (last_entries s)(url \<mapsto> ident)\<rparr>;
                    c = content_of e
                in case attr e ''title'' of
                     Inl x \<Rightarrow> Inl (x, s1)
                   | Inr t \<Rightarrow>
                       (case attr e ''link'' of
                          Inl x \<Rightarrow> Inl (x, s1)
                        | Inr l \<Rightarrow>
                            Inr (s1\<lparr>pending_entries := pending_entries s1 @
                                      [\<lparr>title = t, content = c, link = l, feed_url = url,
                                        is_telegram = False\<rparr>]\<rparr>)))
          else Inr s)"

text \<open>\<^verbatim>\<open>_parse_telegram_channel\<close> (lines 279-310): the \<^verbatim>\<open>try\<close> body, then the handler
  that logs. \<^verbatim>\<open>message_link['href']\<close> raises \<^verbatim>\<open>KeyError\<close> when the anchor has no
  \<^verbatim>\<open>href\<close>, before anything is written. A string is the list of its characters,
  and \<open>take\<close> counts them as the slice \<^verbatim>\<open>content[:100]\<close> counts code points.\<close>

definition parse_telegram_channel_try :: "tg_message list \<Rightarrow> string \<Rightarrow> monitor \<Rightarrow> exn + monitor" where
  "parse_telegram_channel_try msgs url s =
     (case msgs of
        [] \<Rightarrow> Inr s
      | latest # _ \<Rightarrow>
          (case (message_link latest, message_text latest) of
             (Some anchor, Some txt) \<Rightarrow>
               (case anchor of
                  None \<Rightarrow> Inl KeyError
                | Some ident \<Rightarrow>
                    if is_new s url ident
                    then Inr (s\<lparr>last_entries := (last_entries s)(url \<mapsto> ident),
                               pending_entries := pending_entries s @
                                 [\<lparr>title = take 100 txt, content = txt, link = ident,
                                   feed_url = url, is_telegram = True\<rparr>]\<rparr>)
                    else Inr s)
           | _ \<Rightarrow> Inr s))"

definition parse_telegram_channel :: "tg_message list \<Rightarrow> string \<Rightarrow> monitor \<Rightarrow> monitor" where
  "parse_telegram_channel msgs url s =
     (case parse_telegram_channel_try msgs url s of Inl e \<Rightarrow> s | Inr s' \<Rightarrow> s')"

text \<open>The \<^verbatim>\<open>try\<close> body of \<^verbatim>\<open>_check_rss\<close> (lines 140-193): a raise is returned with the
  state at that moment. Line 180, \<^verbatim>\<open>if latest_entry:\<close>, passes over a missing entry
  and an entry that is an empty dict.\<close>

definition check_rss_try :: "world \<Rightarrow> string \<Rightarrow> monitor \<Rightarrow> (exn \<times> monitor) + monitor" where
  "check_rss_try w url s =
     (case http w of
        NetworkError \<Rightarrow> Inl (ConnectionError, s)
      | Response st body \<Rightarrow>
          (case raise_for_status st of
             Inl x \<Rightarrow> Inl (x, s)
           | Inr _ \<Rightarrow>
               (let feed = parsed w in
                if bozo feed \<and> contains ''t.me/s/'' url
                then Inr (parse_telegram_channel (soup w) url s)
                else if bozo feed \<and> entries feed = []
                then Inr s
                else (case latest_of (entries feed) of
                        Inl x \<Rightarrow> Inl (x, s)
                      | Inr None \<Rightarrow> Inr s
                      | Inr (Some latest_entry) \<Rightarrow>
                          if latest_entry \<noteq> [] then note_latest_try latest_entry url s
                          else Inr s))))"

text \<open>The handlers of lines 195-198: both log and return; what the body wrote before it
  raised stays written.\<close>

definition check_rss :: "world \<Rightarrow> string \<Rightarrow> monitor \<Rightarrow> monitor" where
  "check_rss w url s =
     (case check_rss_try w url s of
        Inl (x, s') \<Rightarrow> (if is_request_exception x then s' else s')
      | Inr s' \<Rightarrow> s')"

text \<open>The sweep of lines 125-127: every feed of the list in order, each seeing the
  outside through \<open>web\<close>.\<close>

fun sweep :: "(string \<Rightarrow> world) \<Rightarrow> string list \<Rightarrow> monitor \<Rightarrow> monitor" where
  "sweep web [] s = s"
| "sweep web (url # urls) s = sweep web urls (check_rss (web url) url s)"

subsection \<open>The classifier's reply\<close>

text \<open>A value decoded by \<^verbatim>\<open>json.loads\<close>.\<close>

datatype json =
  JNull | JBool bool | JNum real | JStr string | JArr "json list" | JObj "(string \<times> json) list"

text \<open>How lines 206-230 end for a given prompt: the import or the client's constructor
  raises (lines 206-207, nothing is sent), or the request is sent and raises or its
  reply cannot be read (lines 224-230), or \<^verbatim>\<open>json.loads\<close> raises on the reply's text, or
  the text decodes.\<close>

datatype llm_reply = SetupRaised | CallRaised | NotJson | Json json

text \<open>Python's truth value of a decoded value (the \<^verbatim>\<open>category and ...\<close> of line 234).\<close>

fun truthy :: "json \<Rightarrow> bool" where
  "truthy JNull = False"
| "truthy (JBool b) = b"
| "truthy (JNum x) = (x \<noteq> 0)"
| "truthy (JStr s) = (s \<noteq> [])"
| "truthy (JArr xs) = (xs \<noteq> [])"
| "truthy (JObj kvs) = (kvs \<noteq> [])"

text \<open>What \<^verbatim>\<open>zip\<close> iterates over (line 233): the elements of a list, the characters of
  a string, the keys of a dict; any other value is not iterable.\<close>

fun py_iter :: "json \<Rightarrow> exn + json list" where
  "py_iter (JArr xs) = Inr xs"
| "py_iter (JStr s) = Inr (map (\<lambda>c. JStr [c]) s)"
| "py_iter (JObj kvs) = Inr (map (\<lambda>kv. JStr (fst kv)) kvs)"
| "py_iter _ = Inl TypeError"

text \<open>The guard of line 234: \<^verbatim>\<open>if category and category != 'None'\<close>.\<close>

definition passes_guard :: "json \<Rightarrow> bool" where
  "passes_guard category = (truthy category \<and> category \<noteq> JStr ''None'')"

definition CATEGORIES :: "string list" where
  "CATEGORIES =
     [''License'', ''Sanction'', ''AML/CFT'', ''Regulatory'',
      ''Benchmark Exchange License Update'', ''Legal structure'']"

subsection \<open>The prompt of the bulk request (lines 210-222)\<close>

definition nl :: string where "nl = [CHR 0x0A]"
definition sq :: string where "sq = [CHR 0x27]"
definition dq :: string where "dq = [CHR 0x22]"
definition indent :: string where "indent = replicate 12 CHR '' ''"

fun str_nat :: "nat \<Rightarrow> string" where
  "str_nat n =
     (if n < 10 then [char_of (48 + n)]
      else str_nat (n div 10) @ [char_of (48 + n mod 10)])"

text \<open>\<^verbatim>\<open>', '.join(CATEGORIES)\<close>.\<close>

fun join :: "string \<Rightarrow> string list \<Rightarrow> string" where
  "join sep [] = []"
| "join sep [x] = x"
| "join sep (x # y # ys) = x @ sep @ join sep (y # ys)"

text \<open>One block of \<open>entries_text\<close> (line 212), for the entry numbered \<open>i\<close>; \<open>take\<close>
  counts characters as the slice \<^verbatim>\<open>[:500]\<close> counts code points.\<close>

definition entry_block :: "nat \<Rightarrow> candidate \<Rightarrow> string" where
  "entry_block i entry =
     nl @ ''Entry '' @ str_nat i @ '':'' @ nl @ ''Title: '' @ title entry @ nl @
     ''Content: '' @ take 500 (content entry) @ ''...'' @ nl"

text \<open>The loop of lines 211-212: \<^verbatim>\<open>enumerate(self.pending_entries, 1)\<close>.\<close>

fun entries_text :: "nat \<Rightarrow> candidate list \<Rightarrow> string" where
  "entries_text i [] = []"
| "entries_text i (entry # rest) = entry_block i entry @ entries_text (Suc i) rest"

text \<open>The f-string of lines 214-222: the text before \<open>entries_text\<close>, and the text after
  it.\<close>

definition prompt_head :: string where
  "prompt_head =
     ''Categorize each of the following news entries into one of these categories:'' @ nl @
     indent @ join '', '' CATEGORIES @ nl @
     indent @ nl @
     indent @ ''If an entry is not related to any category, respond with '' @ sq @ ''None'' @ sq @ ''.'' @ nl @
     indent @ nl @
     indent"

definition prompt_tail :: string where
  "prompt_tail =
     nl @
     indent @ nl @
     indent @ ''Respond with a JSON array where each element is the category name or '' @
       sq @ ''None'' @ sq @ '' for each entry in order.'' @ nl @
     indent @ ''Example response: ['' @ dq @ ''License'' @ dq @ '', '' @ dq @ ''None'' @ dq @
       '', '' @ dq @ ''AML/CFT'' @ dq @ '']''"

definition build_prompt :: "candidate list \<Rightarrow> string" where
  "build_prompt batch = prompt_head @ entries_text 1 batch @ prompt_tail"

subsection \<open>The notifier (load_chat_ids and send_telegram_message, lines 336-356)\<close>

text \<open>The chat-id file: missing, or its lines, each as \<^verbatim>\<open>int(line.strip())\<close> reads it
  (\<open>None\<close> for a line that is no integer, on which \<^verbatim>\<open>int\<close> raises \<^verbatim>\<open>ValueError\<close>).\<close>

datatype chat_file = FileNotFound | FileLines "int option list"

definition load_chat_ids :: "chat_file \<Rightarrow> exn + int list" where
  "load_chat_ids f =
     (case f of
        FileNotFound \<Rightarrow> Inr []
      | FileLines ls \<Rightarrow> (case those ls of None \<Rightarrow> Inl ValueError | Some ids \<Rightarrow> Inr ids))"

text \<open>What a flush sees of the outside: the classifier (from the prompt to its reply),
  Python's \<^verbatim>\<open>str\<close> of a label inside the f-string of line 237, the formatted
  \<^verbatim>\<open>datetime.now()\<close>, the chat-id file, \<^verbatim>\<open>bot.send_message\<close> (\<open>True\<close>: delivered,
  \<open>False\<close>: it raised) and the clock read in the \<^verbatim>\<open>finally\<close> clause.\<close>

record outside =
  classify :: "string \<Rightarrow> llm_reply"
  str_of :: "json \<Rightarrow> string"
  strftime_now :: string
  chat_ids_txt :: chat_file
  send_message :: "int \<Rightarrow> string \<Rightarrow> bool"
  clock :: real

text \<open>A delivery attempt: the destination, the text, and whether it was delivered.\<close>

type_synonym attempt = "int \<times> string \<times> bool"

text \<open>The loop of lines 351-356: each destination in its own \<^verbatim>\<open>try\<close>.\<close>

fun send_each :: "outside \<Rightarrow> string \<Rightarrow> int list \<Rightarrow> attempt list" where
  "send_each out message [] = []"
| "send_each out message (chat_id # rest) =
     (chat_id, message, send_message out chat_id message) # send_each out message rest"

definition send_telegram_message :: "outside \<Rightarrow> string \<Rightarrow> exn + attempt list" where
  "send_telegram_message out message =
     (case load_chat_ids (chat_ids_txt out) of
        Inl e \<Rightarrow> Inl e
      | Inr chat_ids \<Rightarrow> Inr (send_each out message chat_ids))"

subsection \<open>The flush (_process_pending_entries, lines 200-250)\<close>

text \<open>The names an instance of \<^verbatim>\<open>RSSMonitor\<close> answers to: the methods of the class
  (lines 87-310) and the attributes \<^verbatim>\<open>__init__\<close> sets.\<close>

definition RSSMonitor_attributes :: "string list" where
  "RSSMonitor_attributes =
     [''__init__'', ''start_monitoring'', ''stop_monitoring'', ''_monitor_loop'',
      ''_check_rss'', ''_process_pending_entries'', ''categorize_with_chatgpt'',
      ''_parse_telegram_channel'',
      ''check_interval'', ''sheet_refresh_interval'', ''last_entries'', ''is_running'',
      ''monitor_thread'', ''sheet_reader'', ''feeds'', ''last_sheet_check'',
      ''pending_entries'', ''max_batch_size'', ''batch_timeout'', ''last_batch_time'']"

text \<open>Line 242 calls \<^verbatim>\<open>self.send_telegram_message(message)\<close>. The function of that
  name is defined at module level (line 347), not in the class: looking the name up on
  \<open>self\<close> raises \<^verbatim>\<open>AttributeError\<close> before anything is called.\<close>

definition self_send_telegram_message :: "outside \<Rightarrow> string \<Rightarrow> exn + attempt list" where
  "self_send_telegram_message out message =
     (if ''send_telegram_message'' \<in> set RSSMonitor_attributes
      then send_telegram_message out message
      else Inl AttributeError)"

text \<open>The message of lines 235-241; the icons are written as their UTF-8 bytes.\<close>

definition format_message :: "outside \<Rightarrow> json \<Rightarrow> candidate \<Rightarrow> string" where
  "format_message out category entry =
     [CHR 0xF0, CHR 0x9F, CHR 0x94, CHR 0x94] @ '' New Update'' @ nl @ nl @
     [CHR 0xF0, CHR 0x9F, CHR 0x93, CHR 0x82] @ '' Category: '' @ str_of out category @ nl @
     [CHR 0xF0, CHR 0x9F, CHR 0x93, CHR 0xB0] @ '' Title: '' @ title entry @ nl @
     [CHR 0xF0, CHR 0x9F, CHR 0x94, CHR 0x97] @ '' Link: '' @ link entry @ nl @
     [CHR 0xF0, CHR 0x9F, CHR 0x95, CHR 0x92] @ '' Published: '' @ strftime_now out"

text \<open>The loop of lines 233-243 over the zipped pairs. It stops at the first
  exception; what was delivered before stays delivered.\<close>

fun notify_loop :: "outside \<Rightarrow> (candidate \<times> json) list \<Rightarrow> exn option \<times> attempt list" where
  "notify_loop out [] = (None, [])"
| "notify_loop out ((entry, category) # rest) =
     (if passes_guard category
      then (case self_send_telegram_message out (format_message out category entry) of
              Inl e \<Rightarrow> (Some e, [])
            | Inr atts \<Rightarrow>
                (case notify_loop out rest of (r, later) \<Rightarrow> (r, atts @ later)))
      else notify_loop out rest)"

text \<open>What a flush did: the prompts sent to the classifier, the exception the handler of
  line 245 caught and logged (if any), the delivery attempts.\<close>

record flush_report =
  requests :: "string list"
  caught :: "exn option"
  sent :: "attempt list"

text \<open>Lines 206-230 on a prompt: how they end, and the prompts that went out on the way
  (none when the client could not be set up, else the one of line 224).\<close>

definition ask_classifier :: "outside \<Rightarrow> string \<Rightarrow> llm_reply \<times> string list" where
  "ask_classifier out prompt =
     (case classify out prompt of
        SetupRaised \<Rightarrow> (SetupRaised, [])
      | reply \<Rightarrow> (reply, [prompt]))"

text \<open>The \<^verbatim>\<open>try\<close> body (lines 206-243) on a batch.\<close>

definition process_pending_entries_try :: "outside \<Rightarrow> candidate list \<Rightarrow> flush_report" where
  "process_pending_entries_try out batch =
     (case ask_classifier out (build_prompt batch) of
        (reply, asked) \<Rightarrow>
          (case reply of
             SetupRaised \<Rightarrow> \<lparr>requests = asked, caught = Some OpenAIError, sent = []\<rparr>
           | CallRaised \<Rightarrow> \<lparr>requests = asked, caught = Some APIError, sent = []\<rparr>
           | NotJson \<Rightarrow> \<lparr>requests = asked, caught = Some JSONDecodeError, sent = []\<rparr>
           | Json categories \<Rightarrow>
               (case py_iter categories of
                  Inl e \<Rightarrow> \<lparr>requests = asked, caught = Some e, sent = []\<rparr>
                | Inr labels \<Rightarrow>
                    (case notify_loop out (zip batch labels) of
                       (err, atts) \<Rightarrow> \<lparr>requests = asked, caught = err, sent = atts\<rparr>))))"

text \<open>The whole method: the guard of lines 202-203, the body, and the \<^verbatim>\<open>finally\<close> clause
  of lines 247-250.\<close>

definition process_pending_entries :: "outside \<Rightarrow> monitor \<Rightarrow> monitor \<times> flush_report" where
  "process_pending_entries out s =
     (if pending_entries s = []
      then (s, \<lparr>requests = [], caught = None, sent = []\<rparr>)
      else (s\<lparr>pending_entries := [], last_batch_time := clock out\<rparr>,
            process_pending_entries_try out (pending_entries s)))"

subsection \<open>The single-entry classifier (categorize_with_chatgpt, lines 252-277)\<close>

datatype chat_reply = ChatRaised | ChatContent string

text \<open>\<^verbatim>\<open>str.strip\<close> on the ASCII white space (Python also strips the white space beyond
  ASCII).\<close>

definition is_space :: "char \<Rightarrow> bool" where
  "is_space c = (let n = (of_char c :: nat) in (9 \<le> n \<and> n \<le> 13) \<or> (28 \<le> n \<and> n \<le> 32))"

definition strip :: "string \<Rightarrow> string" where
  "strip s = rev (dropWhile is_space (rev (dropWhile is_space s)))"

text \<open>The reply is the classifier's answer to the prompt built from title and content.\<close>

definition categorize_with_chatgpt_try :: "chat_reply \<Rightarrow> exn + string option" where
  "categorize_with_chatgpt_try reply =
     (case reply of
        ChatRaised \<Rightarrow> Inl APIError
      | ChatContent c \<Rightarrow>
          (let category = strip c in
           Inr (if category = ''None'' \<or> category \<notin> set CATEGORIES then None
                else Some category)))"

definition categorize_with_chatgpt :: "chat_reply \<Rightarrow> string option" where
  "categorize_with_chatgpt reply =
     (case categorize_with_chatgpt_try reply of Inl e \<Rightarrow> None | Inr r \<Rightarrow> r)"

subsection \<open>One pass of the loop (_monitor_loop, lines 117-134)\<close>

text \<open>Lines 129-130, with \<open>current_time\<close> the clock reading of line 118.\<close>

definition due_for_flush :: "real \<Rightarrow> monitor \<Rightarrow> bool" where
  "due_for_flush current_time s =
     (int (length (pending_entries s)) \<ge> max_batch_size s \<or>
      (pending_entries s \<noteq> [] \<and> current_time - last_batch_time s \<ge> batch_timeout s))"

text \<open>Lines 129-131: \<open>None\<close> when \<^verbatim>\<open>_process_pending_entries\<close> is not called.\<close>

definition batch_check :: "outside \<Rightarrow> real \<Rightarrow> monitor \<Rightarrow> (monitor \<times> flush_report) option" where
  "batch_check out current_time s =
     (if due_for_flush current_time s then Some (process_pending_entries out s) else None)"



subsection \<open>The specification's due-for-flush condition\<close>

text \<open>Section 4.4 in its own words: true when \<^verbatim>\<open>len(batch) >= maxBatchSize\<close> or the batch
  is non-empty and \<^verbatim>\<open>now - lastFlushTime >= batchTimeout\<close>.\<close>

definition dueForFlush_spec :: "candidate list \<Rightarrow> int \<Rightarrow> real \<Rightarrow> real \<Rightarrow> real \<Rightarrow> bool" where
  "dueForFlush_spec batch maxBatchSize now lastFlushTime batchTimeout =
     (maxBatchSize \<le> int (length batch) \<or>
      (0 < length batch \<and> batchTimeout \<le> now - lastFlushTime))"

subsection \<open>Concrete data\<close>

definition sample_entry :: fp_entry where
  "sample_entry =
     [(''id'', ''123''), (''link'', ''http://a.example/post/123''),
      (''title'', ''Exchange licensed''), (''description'', ''A summary'')]"

text \<open>An item with a guid and a link and no title.\<close>

definition untitled_entry :: fp_entry where
  "untitled_entry =
     [(''id'', ''123''), (''link'', ''http://a.example/post/123''),
      (''description'', ''A summary'')]"

text \<open>An item without a guid.\<close>

definition linked_entry :: fp_entry where
  "linked_entry = [(''link'', ''http://a.example/post/7''), (''title'', ''Sanction lifted'')]"

definition sample_world :: "http_reply \<Rightarrow> fp_entry list \<Rightarrow> world" where
  "sample_world reply es = \<lparr>http = reply, parsed = \<lparr>bozo = False, entries = es\<rparr>, soup = []\<rparr>"

definition sample_candidate :: "string \<Rightarrow> candidate" where
  "sample_candidate t =
     \<lparr>title = t, content = ''text'', link = ''http://a.example/1'',
      feed_url = ''http://a.example/rss'', is_telegram = False\<rparr>"

text \<open>A monitor as \<^verbatim>\<open>__init__\<close> leaves it, with a given pending batch.\<close>

definition sample_monitor :: "candidate list \<Rightarrow> monitor" where
  "sample_monitor batch = (init_monitor 600 0)\<lparr>pending_entries := batch\<rparr>"

text \<open>An outside whose classifier gives the reply \<open>r\<close>, with two registered chats, the
  first of which refuses every message, and whose clock reads 1000.\<close>

definition sample_outside :: "llm_reply \<Rightarrow> outside" where
  "sample_outside r =
     \<lparr>classify = (\<lambda>prompt. r),
      str_of = (\<lambda>j. case j of JStr s \<Rightarrow> s | _ \<Rightarrow> ''?''),
      strftime_now = ''2025-01-01 00:00:00'',
      chat_ids_txt = FileLines [Some 1, Some 2],
      send_message = (\<lambda>chat_id message. chat_id \<noteq> 1),
      clock = 1000\<rparr>"







section \<open>Properties\<close>

subsection \<open>The feed list\<close>


lemma get_rss_feeds_skips_rows:
  "get_rss_feeds (SheetValues [[''RSS Feeds''], [], [''HTTPS://a.example/rss'', ''x'']]) =
     [''HTTPS://a.example/rss'']"
  by code_simp

text \<open>
  Claim C3, as stated, at a concrete input: a monitor whose cached feed list holds one
  feed meets a refresh that is due and whose spreadsheet request fails. The claim has
  the cached list stay; the list is empty afterwards.
\<close>

theorem failed_refresh_replaces_feed_list:
  "feeds ((init_monitor 600 0)\<lparr>feeds := [''http://a.example/rss'']\<rparr>) = [''http://a.example/rss''] \<and>
   feeds (refresh 600 SheetFailed ((init_monitor 600 0)\<lparr>feeds := [''http://a.example/rss'']\<rparr>)) = []"
  by (simp add: refresh_def init_monitor_def get_rss_feeds_def get_rss_feeds_try_def
      SHEET_REFRESH_INTERVAL_def)

text \<open>
  Claim C3, amended. When the spreadsheet request fails, \<^verbatim>\<open>get_rss_feeds\<close> catches the
  failure and returns the empty list, it does not raise; a refresh that is due then
  makes the empty list the monitor's feed list and advances the refresh time, changing
  nothing else. The cached list is kept only while no refresh is due.
\<close>

theorem failed_refresh_gives_empty_feed_list:
  "get_rss_feeds_try SheetFailed = Inl SheetError \<and>
   get_rss_feeds SheetFailed = [] \<and>
   (current_time - last_sheet_check s \<ge> sheet_refresh_interval s \<longrightarrow>
      refresh current_time SheetFailed s = s\<lparr>feeds := [], last_sheet_check := current_time\<rparr>) \<and>
   (\<not> current_time - last_sheet_check s \<ge> sheet_refresh_interval s \<longrightarrow>
      refresh current_time reply s = s)"
  by (simp add: refresh_def get_rss_feeds_def get_rss_feeds_try_def)

theorem failed_refresh_gives_empty_feed_list_witness:
  "(600::real) - last_sheet_check (sample_monitor []) \<ge> sheet_refresh_interval (sample_monitor []) \<and>
   refresh 600 SheetFailed (sample_monitor []) =
     (sample_monitor [])\<lparr>feeds := [], last_sheet_check := 600\<rparr> \<and>
   \<not> (100::real) - last_sheet_check (sample_monitor []) \<ge> sheet_refresh_interval (sample_monitor []) \<and>
   refresh 100 SheetFailed (sample_monitor []) = sample_monitor []"
proof -
  have due: "(600::real) - last_sheet_check (sample_monitor []) \<ge> sheet_refresh_interval (sample_monitor [])"
    by (simp add: sample_monitor_def init_monitor_def SHEET_REFRESH_INTERVAL_def)
  have early: "\<not> (100::real) - last_sheet_check (sample_monitor []) \<ge> sheet_refresh_interval (sample_monitor [])"
    by (simp add: sample_monitor_def init_monitor_def SHEET_REFRESH_INTERVAL_def)
  show ?thesis
    using failed_refresh_gives_empty_feed_list
        [where current_time = 600 and s = "sample_monitor []" and reply = SheetFailed]
      failed_refresh_gives_empty_feed_list
        [where current_time = 100 and s = "sample_monitor []" and reply = SheetFailed]
      due early
    by simp
qed

subsection \<open>The per-feed check\<close>

lemma is_new_iff: "is_new s url ident = (last_entries s url \<noteq> Some ident)"
  by (auto simp add: is_new_def split: option.splits)

text \<open>A fetch that does not raise and a parse that leaves a first entry to look at
  bring the check to lines 181-193.\<close>

lemma check_rss_reaches_entry:
  assumes "http w = Response st body" and "\<not> (400 \<le> st \<and> st < 600)"
    and "bozo (parsed w) \<longrightarrow> \<not> contains ''t.me/s/'' url"
    and "entries (parsed w) = e # es" and "e \<noteq> []"
  shows "check_rss_try w url s = note_latest_try e url s"
  using assms
  by (auto simp add: check_rss_try_def raise_for_status_def latest_of_def py_first_def Let_def)

text \<open>For an entry that has a title and a link the check does what claim C4 says: the
  identity is the id if there is one and else the link; if the index holds another
  identity or none, the identity is recorded and exactly one candidate is appended; if
  it holds this identity, nothing changes; and a second look at the same entry changes
  nothing.\<close>

lemma check_rss_titled_entry:
  assumes "http w = Response st body" and "\<not> (400 \<le> st \<and> st < 600)"
    and "bozo (parsed w) \<longrightarrow> \<not> contains ''t.me/s/'' url"
    and "entries (parsed w) = e # es"
    and "map_of e ''title'' = Some t" and "map_of e ''link'' = Some l"
    and "ident = (case map_of e ''id'' of Some i \<Rightarrow> i | None \<Rightarrow> l)"
  shows "(last_entries s url \<noteq> Some ident \<longrightarrow>
            pending_entries (check_rss w url s) = pending_entries s @
              [\<lparr>title = t, content = content_of e, link = l, feed_url = url,
                is_telegram = False\<rparr>] \<and>
            last_entries (check_rss w url s) = (last_entries s)(url \<mapsto> ident)) \<and>
         (last_entries s url = Some ident \<longrightarrow> check_rss w url s = s) \<and>
         (pending_entries (check_rss w url s) \<noteq> pending_entries s) =
            (last_entries s url \<noteq> Some ident) \<and>
         check_rss w url (check_rss w url s) = check_rss w url s"
proof -
  have ne: "e \<noteq> []" using assms(5) by auto
  have i: "identity_of e = Inr ident"
    using assms(6,7) by (auto simp add: identity_of_def has_key_def attr_def split: option.splits)
  have r: "\<And>u. check_rss w url u =
      (if last_entries u url = Some ident then u
       else u\<lparr>last_entries := (last_entries u)(url \<mapsto> ident),
              pending_entries := pending_entries u @
                [\<lparr>title = t, content = content_of e, link = l, feed_url = url,
                  is_telegram = False\<rparr>]\<rparr>)"
    using check_rss_reaches_entry [OF assms(1-4) ne] i assms(5,6)
    by (simp add: check_rss_def note_latest_try_def is_new_iff attr_def Let_def)
  show ?thesis by (simp add: r)
qed

text \<open>
  Claim C4, at the input on which the code departs from it: a feed that is fetched and
  parsed without trouble and whose latest item has the id 123 and a link, but no title.
  The identity is new, so line 184 writes it to the index; building the candidate then
  reads \<^verbatim>\<open>latest_entry.title\<close> (line 189), which raises \<^verbatim>\<open>AttributeError\<close>; the handler
  of line 197 logs it. The index has advanced and nothing was emitted, and the next
  check finds the identity unchanged and emits nothing either: the item is never
  emitted. The same item with a title is emitted once, and an item without an id is
  recorded under its link.
\<close>

theorem entry_without_title_is_lost:
  "check_rss_try (sample_world (Response 200 []) [untitled_entry]) ''http://a.example/rss''
      (sample_monitor []) =
     Inl (AttributeError,
          (sample_monitor [])\<lparr>last_entries := [''http://a.example/rss'' \<mapsto> ''123'']\<rparr>) \<and>
   check_rss (sample_world (Response 200 []) [untitled_entry]) ''http://a.example/rss''
      (sample_monitor []) =
     (sample_monitor [])\<lparr>last_entries := [''http://a.example/rss'' \<mapsto> ''123'']\<rparr> \<and>
   pending_entries (sample_monitor []) = [] \<and>
   last_entries (sample_monitor []) ''http://a.example/rss'' = None \<and>
   check_rss (sample_world (Response 200 []) [untitled_entry]) ''http://a.example/rss''
      ((sample_monitor [])\<lparr>last_entries := [''http://a.example/rss'' \<mapsto> ''123'']\<rparr>) =
     (sample_monitor [])\<lparr>last_entries := [''http://a.example/rss'' \<mapsto> ''123'']\<rparr> \<and>
   check_rss (sample_world (Response 200 []) [sample_entry]) ''http://a.example/rss''
      (sample_monitor []) =
     (sample_monitor [])\<lparr>last_entries := [''http://a.example/rss'' \<mapsto> ''123''],
        pending_entries := [\<lparr>title = ''Exchange licensed'', content = ''A summary'',
          link = ''http://a.example/post/123'', feed_url = ''http://a.example/rss'',
          is_telegram = False\<rparr>]\<rparr> \<and>
   check_rss (sample_world (Response 200 []) [linked_entry]) ''http://a.example/rss''
      (sample_monitor []) =
     (sample_monitor [])\<lparr>last_entries := [''http://a.example/rss'' \<mapsto> ''http://a.example/post/7''],
        pending_entries := [\<lparr>title = ''Sanction lifted'', content = [],
          link = ''http://a.example/post/7'', feed_url = ''http://a.example/rss'',
          is_telegram = False\<rparr>]\<rparr>"
  by (simp add: check_rss_def check_rss_try_def raise_for_status_def latest_of_def py_first_def
      note_latest_try_def is_new_def identity_of_def has_key_def attr_def content_of_def
      get_or_empty_def sample_world_def sample_entry_def untitled_entry_def linked_entry_def
      sample_monitor_def init_monitor_def Let_def)

text \<open>
  Claim C7, as stated, at a concrete input: the fetch returns status 304, which is not
  a 2xx status, and the parser (which reads the feed's address itself, line 156) gives
  a feed with one entry. \<^verbatim>\<open>raise_for_status\<close> lets 304 pass, and the check emits the
  entry and writes the index.
\<close>

theorem status_304_still_emits:
  "pending_entries (check_rss (sample_world (Response 304 []) [sample_entry])
       ''http://a.example/rss'' (sample_monitor [])) =
     [\<lparr>title = ''Exchange licensed'', content = ''A summary'',
       link = ''http://a.example/post/123'', feed_url = ''http://a.example/rss'',
       is_telegram = False\<rparr>] \<and>
   last_entries (check_rss (sample_world (Response 304 []) [sample_entry])
       ''http://a.example/rss'' (sample_monitor [])) ''http://a.example/rss'' = Some ''123'' \<and>
   pending_entries (sample_monitor []) = [] \<and>
   last_entries (sample_monitor []) ''http://a.example/rss'' = None"
  by (simp add: check_rss_def check_rss_try_def raise_for_status_def latest_of_def py_first_def
      note_latest_try_def is_new_def identity_of_def has_key_def attr_def content_of_def
      get_or_empty_def sample_world_def sample_entry_def sample_monitor_def init_monitor_def
      Let_def)

text \<open>
  Claim C7, amended. For every feed, if the HTTP fetch ends in a network or connection
  error, or returns a status from 400 to 599 (the statuses on which
  \<^verbatim>\<open>raise_for_status\<close> raises), the body of the check raises a request exception with
  the state untouched, the handler of line 195 catches it, the check returns with the
  whole state as it was (no candidate, index and pending batch unchanged), and the
  sweep goes on with the next feed.
\<close>

theorem request_failure_changes_nothing:
  assumes "http (web url) = NetworkError \<or>
           (\<exists>st body. http (web url) = Response st body \<and> 400 \<le> st \<and> st < 600)"
  shows "(\<exists>e. check_rss_try (web url) url s = Inl (e, s) \<and> is_request_exception e) \<and>
         check_rss (web url) url s = s \<and>
         sweep web (url # urls) s = sweep web urls s"
  using assms
  by (auto simp add: check_rss_def check_rss_try_def raise_for_status_def)

text \<open>Scenario E (a connection error) and a 404, each on a monitor that already holds a
  pending entry.\<close>

theorem request_failure_changes_nothing_witness:
  "http (sample_world NetworkError [sample_entry]) = NetworkError \<and>
   check_rss (sample_world NetworkError [sample_entry]) ''http://a.example/rss''
     (sample_monitor [sample_candidate ''a'']) = sample_monitor [sample_candidate ''a''] \<and>
   http (sample_world (Response 404 []) [sample_entry]) = Response 404 [] \<and>
   check_rss (sample_world (Response 404 []) [sample_entry]) ''http://a.example/rss''
     (sample_monitor [sample_candidate ''a'']) = sample_monitor [sample_candidate ''a'']"
proof -
  have h1: "http (sample_world NetworkError [sample_entry]) = NetworkError"
    by (simp add: sample_world_def)
  have h2: "http (sample_world (Response 404 []) [sample_entry]) = Response 404 []"
    by (simp add: sample_world_def)
  show ?thesis
    using request_failure_changes_nothing
        [where web = "\<lambda>u. sample_world NetworkError [sample_entry]"
           and url = "''http://a.example/rss''" and urls = "[]"
           and s = "sample_monitor [sample_candidate ''a'']"]
      request_failure_changes_nothing
        [where web = "\<lambda>u. sample_world (Response 404 []) [sample_entry]"
           and url = "''http://a.example/rss''" and urls = "[]"
           and s = "sample_monitor [sample_candidate ''a'']"]
      h1 h2
    by simp
qed

text \<open>
  Claim C10. For every feed whose fetch succeeds and whose parse reports no
  malformation and has no entries, the guarded read of line 179 gives no latest entry
  (it does not raise \<^verbatim>\<open>IndexError\<close>), the body of the check completes without
  raising, and the check returns the state as it was: no candidate, index unchanged.
\<close>

theorem empty_feed_changes_nothing:
  assumes "http w = Response st body" and "\<not> (400 \<le> st \<and> st < 600)"
    and "\<not> bozo (parsed w)" and "entries (parsed w) = []"
  shows "latest_of (entries (parsed w)) = Inr None \<and>
         check_rss_try w url s = Inr s \<and>
         check_rss w url s = s"
  using assms
  by (simp add: check_rss_def check_rss_try_def raise_for_status_def latest_of_def)

theorem empty_feed_changes_nothing_witness:
  "entries (parsed (sample_world (Response 200 []) [])) = [] \<and>
   check_rss_try (sample_world (Response 200 []) []) ''http://a.example/rss''
     (sample_monitor [sample_candidate ''a'']) = Inr (sample_monitor [sample_candidate ''a'']) \<and>
   check_rss (sample_world (Response 200 []) []) ''http://a.example/rss''
     (sample_monitor [sample_candidate ''a'']) = sample_monitor [sample_candidate ''a'']"
proof -
  have h1: "http (sample_world (Response 200 []) []) = Response 200 []"
    by (simp add: sample_world_def)
  have h2: "\<not> (400 \<le> (200::int) \<and> (200::int) < 600)" by simp
  have h3: "\<not> bozo (parsed (sample_world (Response 200 []) []))"
    by (simp add: sample_world_def)
  have h4: "entries (parsed (sample_world (Response 200 []) [])) = []"
    by (simp add: sample_world_def)
  show ?thesis
    using empty_feed_changes_nothing [OF h1 h2 h3 h4] h4 by simp
qed

subsection \<open>The notifier and the flush\<close>

text \<open>The module-level notifier tries every registered chat, whatever the outcome of the
  others.\<close>

lemma send_each_outcome:
  "send_each out message chat_ids =
     map (\<lambda>c. (c, message, send_message out c message)) chat_ids"
  by (induction chat_ids) simp_all

lemma send_telegram_message_tries_all:
  "load_chat_ids (chat_ids_txt out) = Inr chat_ids \<Longrightarrow>
   \<exists>atts. send_telegram_message out message = Inr atts \<and> map fst atts = chat_ids"
  by (simp add: send_telegram_message_def send_each_outcome comp_def)

text \<open>The flush never gets that far: the name it calls is not one of the monitor's.\<close>

lemma self_send_raises: "self_send_telegram_message out message = Inl AttributeError"
  by (simp add: self_send_telegram_message_def RSSMonitor_attributes_def)

lemma notify_loop_sends_nothing: "snd (notify_loop out pairs) = []"
  by (induction out pairs rule: notify_loop.induct) (simp_all add: self_send_raises)



lemma try_sends_nothing: "sent (process_pending_entries_try out batch) = []"
  by (simp add: process_pending_entries_try_def ask_classifier_def case_prod_beta
      notify_loop_sends_nothing split: llm_reply.splits sum.splits)

lemma flush_sends_nothing: "sent (snd (process_pending_entries out s)) = []"
  by (simp add: process_pending_entries_def try_sends_nothing)


text \<open>The single-entry classifier answers with a category of the vocabulary or with
  nothing.\<close>

lemma categorize_with_chatgpt_in_vocabulary:
  "categorize_with_chatgpt reply = Some c \<Longrightarrow> c \<in> set CATEGORIES \<and> c \<noteq> ''None''"
  by (auto simp add: categorize_with_chatgpt_def categorize_with_chatgpt_try_def Let_def
      split: chat_reply.splits if_splits)

text \<open>
  Claim C5. The loop calls the flush exactly when the condition of lines 129-130 holds,
  and that condition is the specification's: the pending batch has at least
  \<open>max_batch_size\<close> entries, or it is non-empty and the time since the last flush is at
  least \<open>batch_timeout\<close>.
\<close>

theorem flush_iff_dueForFlush:
  "due_for_flush now s =
     dueForFlush_spec (pending_entries s) (max_batch_size s) now (last_batch_time s)
       (batch_timeout s) \<and>
   (batch_check out now s \<noteq> None) =
     dueForFlush_spec (pending_entries s) (max_batch_size s) now (last_batch_time s)
       (batch_timeout s)"
  by (auto simp add: batch_check_def due_for_flush_def dueForFlush_spec_def)

text \<open>Scenarios B and C of the specification: five entries are due at once; two entries
  are due 61 seconds after the last flush and not 30 seconds after it.\<close>

lemma due_for_flush_scenarios:
  "due_for_flush 1 (sample_monitor (replicate 5 (sample_candidate ''a''))) \<and>
   due_for_flush 61 (sample_monitor (replicate 2 (sample_candidate ''a''))) \<and>
   \<not> due_for_flush 30 (sample_monitor (replicate 2 (sample_candidate ''a''))) \<and>
   \<not> due_for_flush 61 (sample_monitor [])"
  by (simp add: due_for_flush_def sample_monitor_def init_monitor_def)

text \<open>The method itself: a non-empty batch is cleared and the timestamp set, whatever
  the body did; an empty batch leaves by the guard of lines 202-203 with the state as
  it was. The loop never calls it on an empty batch while \<open>max_batch_size\<close> is positive
  (it is 5).\<close>

lemma process_pending_entries_state:
  "fst (process_pending_entries out s) =
     (if pending_entries s = [] then s
      else s\<lparr>pending_entries := [], last_batch_time := clock out\<rparr>)"
  by (simp add: process_pending_entries_def)

lemma due_batch_is_not_empty:
  "due_for_flush now s \<Longrightarrow> 0 < max_batch_size s \<Longrightarrow> pending_entries s \<noteq> []"
  by (auto simp add: due_for_flush_def)

text \<open>
  Claim C6. Every flush the loop performs (\<open>max_batch_size\<close> is positive, and the check
  of lines 129-131 calls the method), whatever the outside does, that is whether the
  classification succeeds or any step of it raises, leaves the pending batch empty and
  the timestamp of the last flush at the clock reading of the \<^verbatim>\<open>finally\<close> clause;
  nothing else of the state changes.
\<close>

theorem flush_clears_batch_and_resets_timer:
  assumes "0 < max_batch_size s" and "batch_check out now s = Some (s', report)"
  shows "pending_entries s' = [] \<and> last_batch_time s' = clock out \<and>
         s' = s\<lparr>pending_entries := [], last_batch_time := clock out\<rparr>"
proof -
  have due: "due_for_flush now s"
    using assms(2) by (simp add: batch_check_def split: if_splits)
  then have ne: "pending_entries s \<noteq> []"
    using assms(1) by (rule due_batch_is_not_empty)
  have "s' = fst (process_pending_entries out s)"
    using assms(2) due by (auto simp add: batch_check_def)
  then show ?thesis
    using ne by (simp add: process_pending_entries_state)
qed

text \<open>One entry, 61 seconds after the last flush: once with a classifier whose request
  raises, once with one that answers \<^verbatim>\<open>["None"]\<close> (the body completes, nothing is
  caught).\<close>

theorem flush_clears_batch_and_resets_timer_witness:
  "0 < max_batch_size (sample_monitor [sample_candidate ''a'']) \<and>
   batch_check (sample_outside CallRaised) 61 (sample_monitor [sample_candidate ''a'']) =
     Some ((sample_monitor [])\<lparr>last_batch_time := 1000\<rparr>,
           \<lparr>requests = [build_prompt [sample_candidate ''a'']], caught = Some APIError,
            sent = []\<rparr>) \<and>
   batch_check (sample_outside (Json (JArr [JStr ''None'']))) 61
       (sample_monitor [sample_candidate ''a'']) =
     Some ((sample_monitor [])\<lparr>last_batch_time := 1000\<rparr>,
           \<lparr>requests = [build_prompt [sample_candidate ''a'']], caught = None, sent = []\<rparr>)"
proof -
  have m: "0 < max_batch_size (sample_monitor [sample_candidate ''a''])"
    by (simp add: sample_monitor_def init_monitor_def)
  have b1: "batch_check (sample_outside CallRaised) 61 (sample_monitor [sample_candidate ''a'']) =
      Some (fst (process_pending_entries (sample_outside CallRaised)
                   (sample_monitor [sample_candidate ''a''])),
            \<lparr>requests = [build_prompt [sample_candidate ''a'']], caught = Some APIError,
             sent = []\<rparr>)"
    by (simp add: batch_check_def due_for_flush_def process_pending_entries_def
        process_pending_entries_try_def ask_classifier_def sample_monitor_def
        sample_outside_def init_monitor_def)
  have b2: "batch_check (sample_outside (Json (JArr [JStr ''None'']))) 61
        (sample_monitor [sample_candidate ''a'']) =
      Some (fst (process_pending_entries (sample_outside (Json (JArr [JStr ''None''])))
                   (sample_monitor [sample_candidate ''a''])),
            \<lparr>requests = [build_prompt [sample_candidate ''a'']], caught = None, sent = []\<rparr>)"
    by (simp add: batch_check_def due_for_flush_def process_pending_entries_def
        process_pending_entries_try_def ask_classifier_def passes_guard_def sample_monitor_def
        sample_outside_def init_monitor_def)
  have c: "\<And>r. clock (sample_outside r) = 1000"
    by (simp add: sample_outside_def)
  have e: "(sample_monitor [sample_candidate ''a''])\<lparr>pending_entries := [], last_batch_time := 1000\<rparr> =
      (sample_monitor [])\<lparr>last_batch_time := 1000\<rparr>"
    by (simp add: sample_monitor_def)
  show ?thesis
    using flush_clears_batch_and_resets_timer [OF m b1] flush_clears_batch_and_resets_timer [OF m b2]
      m b1 b2 c e
    by simp
qed

text \<open>
  Claim C1, as stated, at a concrete input: a batch of two entries and a classifier that
  returns the one-element list \<^verbatim>\<open>["None"]\<close>. The lengths differ, and the flush does not
  treat the batch as failed: the body completes, the handler of line 245 catches
  nothing. The one label is paired with the first entry, the second entry is passed
  over.
\<close>

theorem length_mismatch_not_treated_as_failure:
  "length [JStr ''None''] = 1 \<and>
   length (pending_entries (sample_monitor [sample_candidate ''a'', sample_candidate ''b''])) = 2 \<and>
   caught (snd (process_pending_entries (sample_outside (Json (JArr [JStr ''None''])))
      (sample_monitor [sample_candidate ''a'', sample_candidate ''b'']))) = None"
  by (simp add: process_pending_entries_def process_pending_entries_try_def
      ask_classifier_def sample_monitor_def
      sample_outside_def passes_guard_def init_monitor_def)

text \<open>
  Claim C1, amended. For every non-empty batch handed to the bulk classifier: if the
  request fails (the client cannot be set up, or the call raises), or the response
  cannot be decoded as JSON, or it decodes to a value
  that cannot be iterated, the whole batch is treated as failed, that is, the handler
  catches the exception, no notification is produced and the batch is cleared. The
  number of labels is not compared with the number of entries: a list of labels of any
  length is paired with the entries in order, up to the shorter of the two, and the
  pairs go through the per-entry loop; the batch is cleared all the same.
\<close>

theorem failed_classification_notifies_nobody:
  assumes "pending_entries s \<noteq> []"
  shows "((classify out (build_prompt (pending_entries s)) = SetupRaised \<or>
          classify out (build_prompt (pending_entries s)) = CallRaised \<or>
          classify out (build_prompt (pending_entries s)) = NotJson \<or>
          (\<exists>j e. classify out (build_prompt (pending_entries s)) = Json j \<and> py_iter j = Inl e)) \<longrightarrow>
            caught (snd (process_pending_entries out s)) \<noteq> None \<and>
            sent (snd (process_pending_entries out s)) = [] \<and>
            pending_entries (fst (process_pending_entries out s)) = []) \<and>
         (\<forall>labels. classify out (build_prompt (pending_entries s)) = Json (JArr labels) \<longrightarrow>
            (caught (snd (process_pending_entries out s)),
             sent (snd (process_pending_entries out s))) =
               notify_loop out (zip (pending_entries s) labels) \<and>
            pending_entries (fst (process_pending_entries out s)) = [])"
  using assms
  by (auto simp add: process_pending_entries_def process_pending_entries_try_def
      ask_classifier_def split: prod.splits)

theorem failed_classification_notifies_nobody_witness:
  "pending_entries (sample_monitor [sample_candidate ''a'', sample_candidate ''b'']) \<noteq> [] \<and>
   caught (snd (process_pending_entries (sample_outside CallRaised)
      (sample_monitor [sample_candidate ''a'', sample_candidate ''b'']))) \<noteq> None \<and>
   sent (snd (process_pending_entries (sample_outside CallRaised)
      (sample_monitor [sample_candidate ''a'', sample_candidate ''b'']))) = [] \<and>
   caught (snd (process_pending_entries (sample_outside NotJson)
      (sample_monitor [sample_candidate ''a'', sample_candidate ''b'']))) \<noteq> None \<and>
   sent (snd (process_pending_entries (sample_outside NotJson)
      (sample_monitor [sample_candidate ''a'', sample_candidate ''b'']))) = [] \<and>
   pending_entries (fst (process_pending_entries (sample_outside NotJson)
      (sample_monitor [sample_candidate ''a'', sample_candidate ''b'']))) = []"
proof -
  have ne: "pending_entries (sample_monitor [sample_candidate ''a'', sample_candidate ''b'']) \<noteq> []"
    by (simp add: sample_monitor_def)
  have c: "\<And>r p. classify (sample_outside r) p = r"
    by (simp add: sample_outside_def)
  show ?thesis
    using failed_classification_notifies_nobody [OF ne, where out = "sample_outside CallRaised"]
      failed_classification_notifies_nobody [OF ne, where out = "sample_outside NotJson"]
      ne c
    by simp
qed

text \<open>
  Claim C2, at the input on which the code departs from it: a batch of one entry for
  which the bulk classifier returns the label \<^verbatim>\<open>Sports\<close>. The label is outside the
  vocabulary, and the single-entry path turns it into no category. The batch path does
  not: the label passes the guard of line 234 like a category of the vocabulary, the
  flush builds a notification for it and goes on to the call of line 242 (which raises,
  as for any other label that passes the guard), while for the label \<^verbatim>\<open>None\<close> the
  entry is passed over and the body completes.
\<close>

theorem batch_guard_accepts_label_outside_vocabulary:
  "''Sports'' \<notin> set CATEGORIES \<and>
   categorize_with_chatgpt (ChatContent ''Sports'') = None \<and>
   passes_guard (JStr ''Sports'') \<and>
   \<not> passes_guard (JStr ''None'') \<and>
   caught (snd (process_pending_entries (sample_outside (Json (JArr [JStr ''Sports''])))
      (sample_monitor [sample_candidate ''a'']))) = Some AttributeError \<and>
   caught (snd (process_pending_entries (sample_outside (Json (JArr [JStr ''None''])))
      (sample_monitor [sample_candidate ''a'']))) = None"
  by (simp add: process_pending_entries_def process_pending_entries_try_def
      ask_classifier_def sample_monitor_def
      sample_outside_def passes_guard_def init_monitor_def CATEGORIES_def self_send_raises
      categorize_with_chatgpt_def categorize_with_chatgpt_try_def strip_def is_space_def)

text \<open>
  Claim C8, at the input on which the code departs from it: a batch of one entry that
  the classifier labels \<^verbatim>\<open>License\<close>, with two chats registered. The label passes the
  guard, and the flush ends in \<^verbatim>\<open>AttributeError\<close> with no delivery attempted: line 242
  asks the monitor object for \<^verbatim>\<open>send_telegram_message\<close>, which is a function of the
  module and not an attribute of the object. Called directly on the same outside, the
  module's function tries both chats; the first refuses, the second is reached.
\<close>

theorem flush_never_reaches_a_destination:
  "passes_guard (JStr ''License'') \<and>
   ''send_telegram_message'' \<notin> set RSSMonitor_attributes \<and>
   process_pending_entries (sample_outside (Json (JArr [JStr ''License''])))
      (sample_monitor [sample_candidate ''a'']) =
     ((sample_monitor [])\<lparr>last_batch_time := 1000\<rparr>,
      \<lparr>requests = [build_prompt [sample_candidate ''a'']], caught = Some AttributeError,
       sent = []\<rparr>) \<and>
   send_telegram_message (sample_outside (Json (JArr [JStr ''License''])))  ''m'' =
     Inr [(1, ''m'', False), (2, ''m'', True)]"
  by (simp add: process_pending_entries_def process_pending_entries_try_def
      ask_classifier_def sample_monitor_def
      sample_outside_def passes_guard_def init_monitor_def self_send_raises
      send_telegram_message_def load_chat_ids_def RSSMonitor_attributes_def)

subsection \<open>One pass of the loop\<close>















end
